theory Spec2Isabelle
  imports Complex_Main "HOL-Library.List_Lexorder" "HOL-Library.Multiset"
begin

unbundle bit_operations_syntax

section \<open>Python values used by \<^verbatim>\<open>check_ip_alive.py\<close>\<close>

text \<open>
  A Python string is the list of its code points (\<open>py_str\<close>, integers as \<^verbatim>\<open>ord\<close> gives
  them), so that characters above
  255 and lone surrogates are strings too; \<open>ustr\<close> turns a literal into such a list.
  Strings are compared as Python compares them, code point by code point. Python integers
  are \<^typ>\<open>int\<close>; lengths and counters that start at zero and only grow are \<^typ>\<open>nat\<close>.
  Exceptions are values of \<open>py_exc\<close>; a function that can raise returns \<open>py_exc + 'a\<close>
  with \<open>Inl\<close> for the exception.
\<close>

type_synonym py_str = "int list"

definition ustr :: "string \<Rightarrow> py_str" where
  "ustr s = map of_char s"

datatype py_exc =
    AddressValueError
  | NetmaskValueError
  | ValueError
  | ZeroDivisionError
  | KeyError
  | UnicodeEncodeError
  | OSError
  | KeyboardInterrupt
  | SystemExit int

text \<open>\<^verbatim>\<open>except Exception\<close> catches every class below \<^verbatim>\<open>Exception\<close>;
  \<^verbatim>\<open>KeyboardInterrupt\<close> and \<^verbatim>\<open>SystemExit\<close> derive from \<^verbatim>\<open>BaseException\<close> only.\<close>

fun is_Exception :: "py_exc \<Rightarrow> bool" where
  "is_Exception KeyboardInterrupt = False"
| "is_Exception (SystemExit c) = False"
| "is_Exception e = True"

text \<open>\<^verbatim>\<open>AddressValueError\<close> and \<^verbatim>\<open>NetmaskValueError\<close> are subclasses of \<^verbatim>\<open>ValueError\<close>
  (so is \<^verbatim>\<open>UnicodeEncodeError\<close>, which no parsing function raises and which is named
  separately here).\<close>

fun is_ValueError :: "py_exc \<Rightarrow> bool" where
  "is_ValueError AddressValueError = True"
| "is_ValueError NetmaskValueError = True"
| "is_ValueError ValueError = True"
| "is_ValueError e = False"

subsection \<open>String methods\<close>

text \<open>\<^verbatim>\<open>s.split(sep)\<close> for a one-character separator: every occurrence splits, empty fields
  are kept, and the empty string gives one empty field.\<close>

fun str_split :: "int \<Rightarrow> py_str \<Rightarrow> py_str list" where
  "str_split sep [] = [[]]"
| "str_split sep (c # cs) =
     (if c = sep then [] # str_split sep cs
      else (case str_split sep cs of [] \<Rightarrow> [[c]] | w # ws \<Rightarrow> (c # w) # ws))"

text \<open>\<^verbatim>\<open>s.split(sep, 1)\<close>: at most one split, at the first occurrence.\<close>

definition str_split1 :: "int \<Rightarrow> py_str \<Rightarrow> py_str list" where
  "str_split1 sep s =
     (if sep \<in> set s
      then [takeWhile (\<lambda>c. c \<noteq> sep) s, tl (dropWhile (\<lambda>c. c \<noteq> sep) s)]
      else [s])"

text \<open>The code points for which \<^verbatim>\<open>str.isspace\<close> holds; \<^verbatim>\<open>s.strip()\<close> removes them at
  both ends.\<close>

definition is_space :: "int \<Rightarrow> bool" where
  "is_space c \<longleftrightarrow>
     c \<in> {9, 10, 11, 12, 13, 28, 29, 30, 31, 32, 133, 160, 5760, 8192, 8193, 8194, 8195,
          8196, 8197, 8198, 8199, 8200, 8201, 8202, 8232, 8233, 8239, 8287, 12288}"

definition str_strip :: "py_str \<Rightarrow> py_str" where
  "str_strip s = rev (dropWhile is_space (rev (dropWhile is_space s)))"

text \<open>\<^verbatim>\<open>s.isascii() and s.isdigit()\<close>: non-empty and made of \<^verbatim>\<open>0\<close> to \<^verbatim>\<open>9\<close> only.\<close>

definition is_ascii_digit :: "int \<Rightarrow> bool" where
  "is_ascii_digit c \<longleftrightarrow> 48 \<le> c \<and> c \<le> 57"

definition isascii_isdigit :: "py_str \<Rightarrow> bool" where
  "isascii_isdigit s \<longleftrightarrow> s \<noteq> [] \<and> list_all is_ascii_digit s"

text \<open>\<^verbatim>\<open>int(s, 10)\<close> on a string of ASCII digits.\<close>

definition digit_val :: "int \<Rightarrow> int" where
  "digit_val c = c - 48"

definition int_of_digits :: "py_str \<Rightarrow> int" where
  "int_of_digits s = foldl (\<lambda>acc c. 10 * acc + digit_val c) 0 s"

text \<open>\<^verbatim>\<open>str(n)\<close> for an integer.\<close>

fun str_nat :: "nat \<Rightarrow> py_str" where
  "str_nat n =
     (if n < 10 then [48 + int n]
      else str_nat (n div 10) @ [48 + int (n mod 10)])"

declare str_nat.simps [simp del]

definition str_int :: "int \<Rightarrow> py_str" where
  "str_int i = (if i < 0 then 45 # str_nat (nat (- i)) else str_nat (nat i))"

text \<open>\<^verbatim>\<open>sep.join(xs)\<close>.\<close>

fun str_join :: "py_str \<Rightarrow> py_str list \<Rightarrow> py_str" where
  "str_join sep [] = []"
| "str_join sep [x] = x"
| "str_join sep (x # y # ys) = x @ sep @ str_join sep (y # ys)"

section \<open>The standard library module \<^verbatim>\<open>ipaddress\<close> (IPv4 part)\<close>

text \<open>
  The program builds \<^verbatim>\<open>ipaddress.IPv4Address\<close> and \<^verbatim>\<open>ipaddress.IPv4Network\<close> objects.
  The definitions below follow the CPython implementation of that module (3.9.5 and later:
  leading zeros in an octet are rejected, and \<^verbatim>\<open>hosts()\<close> of a /32 network is the single
  address). An address object is its integer \<^verbatim>\<open>_ip\<close>.
\<close>

definition ALL_ONES :: int where
  "ALL_ONES = 2 ^ 32 - 1"

definition max_prefixlen :: int where
  "max_prefixlen = 32"

text \<open>\<^verbatim>\<open>_BaseV4._parse_octet\<close>; it raises \<^verbatim>\<open>ValueError\<close>. Code point 48 is the digit
  zero, 46 the dot, 47 the slash and 45 the hyphen.\<close>

definition parse_octet :: "py_str \<Rightarrow> py_exc + int" where
  "parse_octet octet_str =
     (if octet_str = [] then Inl ValueError
      else if \<not> isascii_isdigit octet_str then Inl ValueError
      else if length octet_str > 3 then Inl ValueError
      else if octet_str \<noteq> [48] \<and> hd octet_str = 48 then Inl ValueError
      else (let octet_int = int_of_digits octet_str
            in if octet_int > 255 then Inl ValueError else Inr octet_int))"

text \<open>\<^verbatim>\<open>int.from_bytes(map(_parse_octet, octets), 'big')\<close>: the first octet that fails
  raises; otherwise the octets are the base-256 digits, most significant first.\<close>

fun parse_octets :: "py_str list \<Rightarrow> py_exc + int list" where
  "parse_octets [] = Inr []"
| "parse_octets (s # ss) =
     (case parse_octet s of
        Inl e \<Rightarrow> Inl e
      | Inr b \<Rightarrow> (case parse_octets ss of Inl e \<Rightarrow> Inl e | Inr bs \<Rightarrow> Inr (b # bs)))"

definition from_bytes_big :: "int list \<Rightarrow> int" where
  "from_bytes_big bs = foldl (\<lambda>acc b. 256 * acc + b) 0 bs"

text \<open>\<^verbatim>\<open>_BaseV4._ip_int_from_string\<close>: a \<^verbatim>\<open>ValueError\<close> of an octet is re-raised as
  \<^verbatim>\<open>AddressValueError\<close>.\<close>

definition ip_int_from_string :: "py_str \<Rightarrow> py_exc + int" where
  "ip_int_from_string ip_str =
     (if ip_str = [] then Inl AddressValueError
      else (let octets = str_split 46 ip_str
            in if length octets \<noteq> 4 then Inl AddressValueError
               else (case parse_octets octets of
                       Inl e \<Rightarrow> Inl AddressValueError
                     | Inr bs \<Rightarrow> Inr (from_bytes_big bs))))"

text \<open>\<^verbatim>\<open>IPv4Address(address)\<close> for a string argument.\<close>

definition IPv4Address :: "py_str \<Rightarrow> py_exc + int" where
  "IPv4Address addr_str =
     (if 47 \<in> set addr_str then Inl AddressValueError
      else ip_int_from_string addr_str)"

text \<open>\<^verbatim>\<open>IPv4Address(address)\<close> for an integer argument (\<^verbatim>\<open>_check_int_address\<close>).\<close>

definition IPv4Address_int :: "int \<Rightarrow> py_exc + int" where
  "IPv4Address_int address =
     (if address < 0 then Inl AddressValueError
      else if address > ALL_ONES then Inl AddressValueError
      else Inr address)"

text \<open>\<^verbatim>\<open>_BaseV4._string_from_ip_int\<close>, which is \<^verbatim>\<open>str(address)\<close>:
  \<^verbatim>\<open>'.'.join(map(str, ip_int.to_bytes(4, 'big')))\<close>.\<close>

definition to_bytes4 :: "int \<Rightarrow> int list" where
  "to_bytes4 ip_int =
     [ip_int div 2 ^ 24 mod 256, ip_int div 2 ^ 16 mod 256, ip_int div 2 ^ 8 mod 256, ip_int mod 256]"

definition string_from_ip_int :: "int \<Rightarrow> py_str" where
  "string_from_ip_int ip_int = str_join [46] (map str_int (to_bytes4 ip_int))"

text \<open>\<^verbatim>\<open>_split_optional_netmask\<close>: more than one \<^verbatim>\<open>/\<close> is an \<^verbatim>\<open>AddressValueError\<close>;
  \<^verbatim>\<open>_split_addr_prefix\<close> then supplies the mask \<^verbatim>\<open>32\<close> when there is none.\<close>

datatype mask_arg = MaskStr py_str | MaskInt int

definition split_addr_prefix :: "py_str \<Rightarrow> py_exc + (py_str \<times> mask_arg)" where
  "split_addr_prefix address =
     (case str_split 47 address of
        [a] \<Rightarrow> Inr (a, MaskInt max_prefixlen)
      | [a, m] \<Rightarrow> Inr (a, MaskStr m)
      | _ \<Rightarrow> Inl AddressValueError)"

text \<open>\<^verbatim>\<open>_prefix_from_prefix_string\<close>. \<^verbatim>\<open>int(s)\<close> refuses more than 4300 digits with a
  \<^verbatim>\<open>ValueError\<close>, which is reported as an invalid netmask like every other failure here.\<close>

definition prefix_from_prefix_string :: "py_str \<Rightarrow> py_exc + int" where
  "prefix_from_prefix_string prefixlen_str =
     (if \<not> isascii_isdigit prefixlen_str then Inl NetmaskValueError
      else if int (length prefixlen_str) > 4300 then Inl NetmaskValueError
      else (let prefixlen = int_of_digits prefixlen_str
            in if \<not> (0 \<le> prefixlen \<and> prefixlen \<le> max_prefixlen) then Inl NetmaskValueError
               else Inr prefixlen))"

text \<open>\<^verbatim>\<open>n.bit_length()\<close> and \<^verbatim>\<open>_count_righthand_zero_bits\<close>.\<close>

fun bit_length_nat :: "nat \<Rightarrow> nat" where
  "bit_length_nat n = (if n = 0 then 0 else Suc (bit_length_nat (n div 2)))"

declare bit_length_nat.simps [simp del]

definition bit_length :: "int \<Rightarrow> int" where
  "bit_length x = int (bit_length_nat (nat \<bar>x\<bar>))"

definition count_righthand_zero_bits :: "int \<Rightarrow> int \<Rightarrow> int" where
  "count_righthand_zero_bits number bits =
     (if number = 0 then bits else min bits (bit_length (NOT number AND (number - 1))))"

text \<open>\<^verbatim>\<open>_prefix_from_ip_int\<close>: the prefix length of a netmask of the form 1*0*.\<close>

definition prefix_from_ip_int :: "int \<Rightarrow> py_exc + int" where
  "prefix_from_ip_int ip_int =
     (let trailing_zeroes = count_righthand_zero_bits ip_int max_prefixlen;
          prefixlen = max_prefixlen - trailing_zeroes;
          leading_ones = drop_bit (nat trailing_zeroes) ip_int;
          all_ones = push_bit (nat prefixlen) 1 - 1
      in if leading_ones \<noteq> all_ones then Inl ValueError else Inr prefixlen)"

text \<open>\<^verbatim>\<open>_prefix_from_ip_string\<close>: a dotted netmask, or else a dotted hostmask.\<close>

definition prefix_from_ip_string :: "py_str \<Rightarrow> py_exc + int" where
  "prefix_from_ip_string ip_str =
     (case ip_int_from_string ip_str of
        Inl e \<Rightarrow> Inl NetmaskValueError
      | Inr ip_int \<Rightarrow>
          (case prefix_from_ip_int ip_int of
             Inr p \<Rightarrow> Inr p
           | Inl e \<Rightarrow>
               (case prefix_from_ip_int (ip_int XOR ALL_ONES) of
                  Inr p \<Rightarrow> Inr p
                | Inl e' \<Rightarrow> Inl NetmaskValueError)))"

definition ip_int_from_prefix :: "int \<Rightarrow> int" where
  "ip_int_from_prefix prefixlen = ALL_ONES XOR drop_bit (nat prefixlen) ALL_ONES"

text \<open>\<^verbatim>\<open>_BaseV4._make_netmask\<close>: the pair (netmask, prefix length). The cache of the
  implementation stores results of this same computation and is left out.\<close>

definition make_netmask :: "mask_arg \<Rightarrow> py_exc + (int \<times> int)" where
  "make_netmask arg =
     (case (case arg of
              MaskInt prefixlen \<Rightarrow>
                (if \<not> (0 \<le> prefixlen \<and> prefixlen \<le> max_prefixlen) then Inl NetmaskValueError
                 else Inr prefixlen)
            | MaskStr s \<Rightarrow>
                (case prefix_from_prefix_string s of
                   Inr p \<Rightarrow> Inr p
                 | Inl e \<Rightarrow> prefix_from_ip_string s)) of
        Inl e \<Rightarrow> Inl e
      | Inr prefixlen \<Rightarrow>
          (case IPv4Address_int (ip_int_from_prefix prefixlen) of
             Inl e \<Rightarrow> Inl e
           | Inr netmask \<Rightarrow> Inr (netmask, prefixlen)))"

text \<open>An \<^verbatim>\<open>IPv4Network\<close> object. \<open>given_address\<close> is the address the constructor was
  called with, which the \<^verbatim>\<open>hosts\<close> method of a /32 network returns.\<close>

record ipv4_network =
  network_address :: int
  netmask :: int
  prefixlen :: int
  given_address :: int

text \<open>\<^verbatim>\<open>IPv4Network(address, strict)\<close>.\<close>

definition IPv4Network :: "py_str \<Rightarrow> bool \<Rightarrow> py_exc + ipv4_network" where
  "IPv4Network address strict =
     (case split_addr_prefix address of
        Inl e \<Rightarrow> Inl e
      | Inr (addr, mask_part) \<Rightarrow>
          (case IPv4Address addr of
             Inl e \<Rightarrow> Inl e
           | Inr packed \<Rightarrow>
               (case make_netmask mask_part of
                  Inl e \<Rightarrow> Inl e
                | Inr (nm, plen) \<Rightarrow>
                    (if packed AND nm \<noteq> packed
                     then (if strict then Inl ValueError
                           else (case IPv4Address_int (packed AND nm) of
                                   Inl e \<Rightarrow> Inl e
                                 | Inr na \<Rightarrow>
                                     Inr \<lparr>network_address = na, netmask = nm,
                                          prefixlen = plen, given_address = packed\<rparr>))
                     else Inr \<lparr>network_address = packed, netmask = nm,
                              prefixlen = plen, given_address = packed\<rparr>))))"

definition hostmask :: "ipv4_network \<Rightarrow> int" where
  "hostmask n = netmask n XOR ALL_ONES"

definition broadcast_address :: "ipv4_network \<Rightarrow> int" where
  "broadcast_address n = network_address n OR hostmask n"

text \<open>\<^verbatim>\<open>network.hosts()\<close>: for a /31 network it is \<^verbatim>\<open>__iter__\<close> (both addresses), for a
  /32 network the given address, and otherwise \<^verbatim>\<open>range(network + 1, broadcast)\<close>.\<close>

definition hosts :: "ipv4_network \<Rightarrow> int list" where
  "hosts n =
     (if prefixlen n = max_prefixlen - 1 then [network_address n .. broadcast_address n]
      else if prefixlen n = max_prefixlen then [given_address n]
      else [network_address n + 1 .. broadcast_address n - 1])"

section \<open>Standard output\<close>

text \<open>
  What the program prints is a list of output items, one for each \<^verbatim>\<open>print\<close> call or for a
  run of consecutive calls that write fixed ASCII text. Layout, colours and the rounding of
  the \<^verbatim>\<open>.1f\<close> format are not modelled.
\<close>

datatype mark = MarkAlive | MarkDead | MarkTimeout | MarkError

datatype out_item =
    ErrorParsingRange py_str py_exc
  | CheckingParallel nat int
  | CompletedLine nat nat bool py_str
  | NoResults
  | RoundRobinHeader py_str
  | TableHeader
  | ResultLine py_str bool py_str
  | RoundRobinStatus nat nat rat
  | SummaryLine nat nat nat
  | SuccessRate rat
  | StartBanner nat int int int
  | CheckingCount nat
  | ProgressIndex nat nat
  | PingingProgress py_str
  | PingMark mark
  | UptimeHeader nat
  | UptimeLine py_str rat
  | NextCheck int nat
  | StoppedByUser
  | FinalStatisticsHeader
  | FinalStatisticsLine py_str nat nat rat

text \<open>The non-ASCII characters of the string literals, as they stand in the source
  file: the status signs of lines 198 and 235, the sign of line 46 and the marks of lines
  66, 70, 75 and 79.\<close>

definition sign_alive :: py_str where "sign_alive = [226, 339, 8220]"
definition sign_dead :: py_str where "sign_dead = [226, 339, 8212]"
definition sign_pinging :: py_str where "sign_pinging = [240, 376, 8221]"

fun mark_sign :: "mark \<Rightarrow> py_str" where
  "mark_sign MarkAlive = sign_alive"
| "mark_sign MarkDead = sign_dead"
| "mark_sign MarkTimeout = [226, 177]"
| "mark_sign MarkError = [226, 338]"

text \<open>The characters of a line that an encoder may refuse: the signs and the strings that
  are interpolated as they are. The text of an exception (\<^verbatim>\<open>{e}\<close> in the error line of
  \<^verbatim>\<open>expand_ip_range\<close>) adds none: the messages of \<^verbatim>\<open>ipaddress\<close> are ASCII text around
  \<^verbatim>\<open>repr\<close> of parts of the input, and \<^verbatim>\<open>repr\<close> keeps a character of the input or replaces
  it by an ASCII escape.\<close>

fun item_chars :: "out_item \<Rightarrow> py_str" where
  "item_chars (ErrorParsingRange ip_range e) = ip_range"
| "item_chars (CompletedLine completed n alive ip) = (if alive then sign_alive else sign_dead) @ ip"
| "item_chars (RoundRobinHeader timestamp) = timestamp"
| "item_chars (ResultLine ip alive message) =
     (if alive then sign_alive else sign_dead) @ ip @ message"
| "item_chars (PingingProgress ip) = sign_pinging @ ip"
| "item_chars (PingMark m) = mark_sign m"
| "item_chars (UptimeLine ip uptime) = ip"
| "item_chars (FinalStatisticsLine ip successful n uptime) = ip"
| "item_chars item = []"

text \<open>
  \<^verbatim>\<open>sys.stdout\<close> is part of the environment. \<open>encodable\<close> says which code points from 128
  on its encoder accepts (with its error handler); ASCII is accepted by every encoding.
  \<open>writable\<close> says whether the stream takes the bytes. \<open>error_text\<close> is \<^verbatim>\<open>str(e)\<close> of the
  exception a failed write raises. The stream does not change during a run.
\<close>

record stdout =
  encodable :: "int \<Rightarrow> bool"
  writable :: bool
  error_text :: "py_exc \<Rightarrow> py_str"

text \<open>\<^verbatim>\<open>print(...)\<close>: \<open>None\<close> when the line was written, otherwise the exception raised.\<close>

definition py_print :: "stdout \<Rightarrow> out_item \<Rightarrow> py_exc option" where
  "py_print out item =
     (if \<exists>c \<in> set (item_chars item). 128 \<le> c \<and> \<not> encodable out c then Some UnicodeEncodeError
      else if \<not> writable out then Some OSError
      else None)"

text \<open>A sequence of \<^verbatim>\<open>print\<close> calls: the exception of the first one that fails, and the
  items written before it.\<close>

fun py_prints :: "stdout \<Rightarrow> out_item list \<Rightarrow> py_exc option \<times> out_item list" where
  "py_prints out [] = (None, [])"
| "py_prints out (item # items) =
     (case py_print out item of
        Some e \<Rightarrow> (Some e, [])
      | None \<Rightarrow> (case py_prints out items of (r, written) \<Rightarrow> (r, item # written)))"

text \<open>Two streams: UTF-8 with the error handler \<^verbatim>\<open>strict\<close>, which refuses the surrogates
  U+D800 to U+DFFF, and a stream that takes everything.\<close>

definition utf8_strict :: stdout where
  "utf8_strict =
     \<lparr>encodable = (\<lambda>c. c < 55296 \<or> (57343 < c \<and> c < 1114112)),
      writable = True,
      error_text = (\<lambda>e. ustr ''surrogates not allowed'')\<rparr>"

definition any_stdout :: stdout where
  "any_stdout = \<lparr>encodable = (\<lambda>c. True), writable = True, error_text = (\<lambda>e. [])\<rparr>"


section \<open>\<^verbatim>\<open>expand_ip_range\<close>\<close>

text \<open>The loop of the range branch:
  \<^verbatim>\<open>while current <= end_ip: ips.append(str(current)); current += 1\<close>.
  \<^verbatim>\<open>current += 1\<close> builds a new \<^verbatim>\<open>IPv4Address\<close> from the integer and raises when it is out
  of range.\<close>

function range_loop :: "int \<Rightarrow> int \<Rightarrow> py_str list \<Rightarrow> py_exc + py_str list" where
  "range_loop current end_ip ips =
     (if current \<le> end_ip
      then (case IPv4Address_int (current + 1) of
              Inl e \<Rightarrow> Inl e
            | Inr next_ip \<Rightarrow> range_loop next_ip end_ip (ips @ [string_from_ip_int current]))
      else Inr ips)"
  by pat_completeness auto
termination
  by (relation "measure (\<lambda>(current, end_ip, ips). nat (end_ip + 1 - current))")
    (auto simp: IPv4Address_int_def split: if_splits)

declare range_loop.simps [simp del]

text \<open>The body of the \<^verbatim>\<open>try\<close> block.\<close>

definition expand_ip_range_try :: "py_str \<Rightarrow> py_exc + py_str list" where
  "expand_ip_range_try ip_range =
     (if 47 \<in> set ip_range then
        (case IPv4Network ip_range False of
           Inl e \<Rightarrow> Inl e
         | Inr network \<Rightarrow> Inr (map string_from_ip_int (hosts network)))
      else if 45 \<in> set ip_range then
        (case str_split1 45 ip_range of
           [start_ip_str, end_ip_str] \<Rightarrow>
             (case IPv4Address (str_strip start_ip_str) of
                Inl e \<Rightarrow> Inl e
              | Inr start_ip \<Rightarrow>
                  (case IPv4Address (str_strip end_ip_str) of
                     Inl e \<Rightarrow> Inl e
                   | Inr end_ip \<Rightarrow>
                       (if start_ip > end_ip then Inl ValueError
                        else range_loop start_ip end_ip [])))
         | _ \<Rightarrow> Inl ValueError)
      else
        (case IPv4Address ip_range of
           Inl e \<Rightarrow> Inl e
         | Inr a \<Rightarrow> Inr [ip_range]))"

text \<open>The whole function. \<^verbatim>\<open>except Exception\<close> prints the error line and returns the empty
  list; an exception raised by that \<^verbatim>\<open>print\<close> leaves the function, and so would an
  exception of the \<^verbatim>\<open>try\<close> block that is not an \<^verbatim>\<open>Exception\<close>. The result is what the call
  returned or raised, together with what it printed.\<close>

definition expand_ip_range :: "stdout \<Rightarrow> py_str \<Rightarrow> (py_exc + py_str list) \<times> out_item list" where
  "expand_ip_range out ip_range =
     (case expand_ip_range_try ip_range of
        Inr ips \<Rightarrow> (Inr ips, [])
      | Inl e \<Rightarrow>
          (if is_Exception e
           then (case py_print out (ErrorParsingRange ip_range e) of
                   Some e' \<Rightarrow> (Inl e', [])
                 | None \<Rightarrow> (Inr [], [ErrorParsingRange ip_range e]))
           else (Inl e, [])))"

section \<open>\<^verbatim>\<open>ping_ip\<close>\<close>

text \<open>
  The ping subprocess is the environment: what \<^verbatim>\<open>subprocess.run\<close> did is a
  \<open>ping_outcome\<close> (a return code, \<^verbatim>\<open>TimeoutExpired\<close>, or another \<^verbatim>\<open>Exception\<close> with its
  text). The timeout and count arguments only reach the subprocess. The function is split
  at the call of the subprocess: \<open>ping_begin\<close> is what happens before it, \<open>ping_end\<close>
  what happens after it.
\<close>

datatype ping_outcome = ReturnCode int | TimeoutExpired | OtherException py_str

type_synonym ping_result = "py_str \<times> bool \<times> py_str"

text \<open>The clause \<^verbatim>\<open>except Exception as e\<close> of \<^verbatim>\<open>ping_ip\<close>; \<open>msg\<close> is \<^verbatim>\<open>str(e)\<close>. Its
  \<^verbatim>\<open>print\<close> is outside the \<^verbatim>\<open>try\<close> block, so a failure of it leaves \<^verbatim>\<open>ping_ip\<close>.\<close>

definition ping_except_Exception ::
  "stdout \<Rightarrow> py_str \<Rightarrow> bool \<Rightarrow> py_str \<Rightarrow> (py_exc + ping_result) \<times> out_item list" where
  "ping_except_Exception out ip_address show_progress msg =
     (if show_progress then
        (case py_print out (PingMark MarkError) of
           Some e' \<Rightarrow> (Inl e', [])
         | None \<Rightarrow> (Inr (ip_address, False, ustr ''Error: '' @ msg), [PingMark MarkError]))
      else (Inr (ip_address, False, ustr ''Error: '' @ msg), []))"

text \<open>Before the subprocess: the progress line is printed inside the \<^verbatim>\<open>try\<close> block. If
  that fails, the \<^verbatim>\<open>except Exception\<close> clause makes the result and no ping is sent
  (\<open>Some\<close> result); otherwise the function goes on to the subprocess (\<open>None\<close>).\<close>

definition ping_begin ::
  "stdout \<Rightarrow> py_str \<Rightarrow> bool \<Rightarrow> (py_exc + ping_result option) \<times> out_item list" where
  "ping_begin out ip_address show_progress =
     (if show_progress then
        (case py_print out (PingingProgress ip_address) of
           Some e \<Rightarrow>
             (case ping_except_Exception out ip_address show_progress (error_text out e) of
                (Inl e', written) \<Rightarrow> (Inl e', written)
              | (Inr r, written) \<Rightarrow> (Inr (Some r), written))
         | None \<Rightarrow> (Inr None, [PingingProgress ip_address]))
      else (Inr None, []))"

text \<open>After the subprocess. The marks for return codes are printed inside the \<^verbatim>\<open>try\<close>
  block, the mark for a timeout inside its own \<^verbatim>\<open>except\<close> clause.\<close>

definition ping_end ::
  "stdout \<Rightarrow> py_str \<Rightarrow> bool \<Rightarrow> ping_outcome \<Rightarrow> (py_exc + ping_result) \<times> out_item list" where
  "ping_end out ip_address show_progress oc =
     (case oc of
        ReturnCode rc \<Rightarrow>
          (let m = (if rc = 0 then MarkAlive else MarkDead);
               r = (if rc = 0 then (ip_address, True, ustr ''Alive'')
                    else (ip_address, False, ustr ''Not reachable''))
           in if show_progress then
                (case py_print out (PingMark m) of
                   Some e \<Rightarrow> ping_except_Exception out ip_address show_progress (error_text out e)
                 | None \<Rightarrow> (Inr r, [PingMark m]))
              else (Inr r, []))
      | TimeoutExpired \<Rightarrow>
          (if show_progress then
             (case py_print out (PingMark MarkTimeout) of
                Some e \<Rightarrow> (Inl e, [])
              | None \<Rightarrow> (Inr (ip_address, False, ustr ''Timeout''), [PingMark MarkTimeout]))
           else (Inr (ip_address, False, ustr ''Timeout''), []))
      | OtherException msg \<Rightarrow> ping_except_Exception out ip_address show_progress msg)"


section \<open>\<^verbatim>\<open>check_ips_parallel\<close>\<close>



section \<open>\<^verbatim>\<open>print_results\<close>\<close>

text \<open>True division of two counts. The quotient is kept exact; the rounding of the float
  is not modelled.\<close>

definition py_truediv :: "nat \<Rightarrow> nat \<Rightarrow> py_exc + rat" where
  "py_truediv a b = (if b = 0 then Inl ZeroDivisionError else Inr (of_nat a / of_nat b))"

definition alive_of :: "ping_result \<Rightarrow> bool" where
  "alive_of r = fst (snd r)"

text \<open>
  \<^verbatim>\<open>results.sort(key=lambda x: x[0])\<close> sorts the caller's list in place, stably, by the
  address string. The function returns \<^verbatim>\<open>None\<close>; the model returns the state of the
  caller's list after the call, the exception raised if any, and what was printed.
  The divisions are evaluated when the line that shows them is built.
\<close>

definition print_results ::
  "stdout \<Rightarrow> ping_result list \<Rightarrow> bool \<Rightarrow> bool \<Rightarrow> py_str \<Rightarrow>
   ping_result list \<times> py_exc option \<times> out_item list" where
  "print_results out results show_summary round_robin timestamp =
     (if results = [] then
        (case py_print out NoResults of
           Some e \<Rightarrow> (results, Some e, [])
         | None \<Rightarrow> (results, None, [NoResults]))
      else
        (let results' = sort_key fst results;
             header = (if round_robin then RoundRobinHeader timestamp else TableHeader);
             rows = map (\<lambda>(ip, is_alive, message). ResultLine ip is_alive message) results';
             alive_count = length (filter alive_of results');
             total_count = length results';
             dead_count = total_count - alive_count
         in case py_prints out (header # rows) of
              (Some e, written) \<Rightarrow> (results', Some e, written)
            | (None, written) \<Rightarrow>
                (if show_summary then
                   (if round_robin then
                      (case py_truediv alive_count total_count of
                         Inl e \<Rightarrow> (results', Some e, written)
                       | Inr q \<Rightarrow>
                           (case py_prints out
                                   [RoundRobinStatus alive_count total_count (q * 100)] of
                              (r, written') \<Rightarrow> (results', r, written @ written')))
                    else
                      (case py_prints out [SummaryLine alive_count total_count dead_count] of
                         (Some e, written') \<Rightarrow> (results', Some e, written @ written')
                       | (None, written') \<Rightarrow>
                           (case py_truediv alive_count total_count of
                              Inl e \<Rightarrow> (results', Some e, written @ written')
                            | Inr q \<Rightarrow>
                                (case py_prints out [SuccessRate (q * 100)] of
                                   (r, written'') \<Rightarrow>
                                     (results', r, written @ written' @ written'')))))
                 else (results', None, written))))"

section \<open>\<^verbatim>\<open>round_robin_monitor\<close>\<close>

text \<open>
  The monitor is a state machine driven by its environment. It waits at two places: inside
  \<^verbatim>\<open>ping_ip\<close> for the subprocess, and inside \<^verbatim>\<open>time.sleep\<close>. An event is the end of a
  subprocess with its outcome, the end of the sleep, or the delivery of \<^verbatim>\<open>SIGINT\<close>.
  \<open>Pinging i\<close> means that the subprocess for \<^verbatim>\<open>ip_addresses[i]\<close> is running, \<open>Returned\<close>
  that the function returned, and \<open>Terminated e\<close> that exception \<open>e\<close> left the function.
  \<open>clock c\<close> is the timestamp read at the start of cycle \<open>c\<close>.
\<close>

datatype event = PingDone ping_outcome | SleepDone | SIGINT

datatype control = Idle | Pinging nat | Sleeping | Returned | Terminated py_exc

record monitor_state =
  check_count :: nat
  history :: "py_str \<rightharpoonup> bool list"
  cycle_results :: "ping_result list"
  control :: control
  printed :: "out_item list"

text \<open>\<^verbatim>\<open>history[ip].append(result[1])\<close> followed by
  \<^verbatim>\<open>if len(history[ip]) > 10: history[ip].pop(0)\<close>.\<close>

definition history_append :: "bool list \<Rightarrow> bool \<Rightarrow> bool list" where
  "history_append h alive = (let h' = h @ [alive] in if length h' > 10 then tl h' else h')"

text \<open>\<^verbatim>\<open>sum(history[ip])\<close> counts the entries that are \<^verbatim>\<open>True\<close>.\<close>

definition sum_bools :: "bool list \<Rightarrow> nat" where
  "sum_bools h = length (filter (\<lambda>b. b) h)"

text \<open>The loop of the periodic uptime table: the exception raised if any, and the lines
  written.\<close>

fun uptime_statistics ::
  "stdout \<Rightarrow> (py_str \<rightharpoonup> bool list) \<Rightarrow> py_str list \<Rightarrow> py_exc option \<times> out_item list" where
  "uptime_statistics out hist [] = (None, [])"
| "uptime_statistics out hist (ip # ips) =
     (case hist ip of
        None \<Rightarrow> (Some KeyError, [])
      | Some h \<Rightarrow>
          (if h \<noteq> [] then
             (case py_truediv (sum_bools h) (length h) of
                Inl e \<Rightarrow> (Some e, [])
              | Inr q \<Rightarrow>
                  (case py_print out (UptimeLine ip (q * 100)) of
                     Some e \<Rightarrow> (Some e, [])
                   | None \<Rightarrow>
                       (case uptime_statistics out hist ips of
                          (r, written) \<Rightarrow> (r, UptimeLine ip (q * 100) # written))))
           else uptime_statistics out hist ips))"

text \<open>The loop of the final statistics, in the \<^verbatim>\<open>except KeyboardInterrupt\<close> clause.\<close>

fun final_statistics ::
  "stdout \<Rightarrow> (py_str \<rightharpoonup> bool list) \<Rightarrow> py_str list \<Rightarrow> py_exc option \<times> out_item list" where
  "final_statistics out hist [] = (None, [])"
| "final_statistics out hist (ip # ips) =
     (case hist ip of
        None \<Rightarrow> (Some KeyError, [])
      | Some h \<Rightarrow>
          (if h \<noteq> [] then
             (let total_checks = length h; successful_checks = sum_bools h
              in case py_truediv successful_checks total_checks of
                   Inl e \<Rightarrow> (Some e, [])
                 | Inr q \<Rightarrow>
                     (case py_print out
                             (FinalStatisticsLine ip successful_checks total_checks (q * 100)) of
                        Some e \<Rightarrow> (Some e, [])
                      | None \<Rightarrow>
                          (case final_statistics out hist ips of
                             (r, written) \<Rightarrow>
                               (r, FinalStatisticsLine ip successful_checks total_checks (q * 100)
                                   # written))))
           else final_statistics out hist ips))"

text \<open>An exception \<open>e\<close> raised inside the \<^verbatim>\<open>try\<close> block meets the only handler,
  \<^verbatim>\<open>except KeyboardInterrupt\<close>: that one prints the final statistics and the function
  returns; any other exception leaves the function.\<close>

definition except_KeyboardInterrupt ::
  "stdout \<Rightarrow> py_str list \<Rightarrow> py_exc \<Rightarrow> monitor_state \<Rightarrow> monitor_state" where
  "except_KeyboardInterrupt out ip_addresses e s =
     (case e of
        KeyboardInterrupt \<Rightarrow>
          (case py_prints out [StoppedByUser, FinalStatisticsHeader] of
             (Some e', written) \<Rightarrow>
               s\<lparr>control := Terminated e', printed := printed s @ written\<rparr>
           | (None, written) \<Rightarrow>
               (case final_statistics out (history s) ip_addresses of
                  (Some e', written') \<Rightarrow>
                    s\<lparr>control := Terminated e', printed := printed s @ written @ written'\<rparr>
                | (None, written') \<Rightarrow>
                    s\<lparr>control := Returned, printed := printed s @ written @ written'\<rparr>))
      | _ \<Rightarrow> s\<lparr>control := Terminated e\<rparr>)"

text \<open>The handler installed with \<^verbatim>\<open>signal.signal(signal.SIGINT, signal_handler)\<close>: it
  prints and calls \<^verbatim>\<open>sys.exit(0)\<close>, which raises \<^verbatim>\<open>SystemExit(0)\<close> at the place where the
  main thread is, inside the \<^verbatim>\<open>try\<close> block.\<close>

definition signal_handler :: "stdout \<Rightarrow> py_str list \<Rightarrow> monitor_state \<Rightarrow> monitor_state" where
  "signal_handler out ip_addresses s =
     (case py_print out StoppedByUser of
        Some e \<Rightarrow> except_KeyboardInterrupt out ip_addresses e s
      | None \<Rightarrow>
          except_KeyboardInterrupt out ip_addresses (SystemExit 0)
            (s\<lparr>printed := printed s @ [StoppedByUser]\<rparr>))"

text \<open>The end of a cycle: the results table, every tenth check the uptime table, the
  announcement of the next check, then the sleep.\<close>

definition finish_cycle ::
  "stdout \<Rightarrow> py_str list \<Rightarrow> int \<Rightarrow> (nat \<Rightarrow> py_str) \<Rightarrow> monitor_state \<Rightarrow> monitor_state" where
  "finish_cycle out ip_addresses interval clock s =
     (case print_results out (cycle_results s) True True (clock (check_count s)) of
        (rs, r, written) \<Rightarrow>
          (let s1 = s\<lparr>cycle_results := rs, printed := printed s @ written\<rparr>
           in case r of
                Some e \<Rightarrow> except_KeyboardInterrupt out ip_addresses e s1
              | None \<Rightarrow>
                  (case (if check_count s mod 10 = 0 then
                           (case py_print out (UptimeHeader (min 10 (check_count s))) of
                              Some e \<Rightarrow> (Some e, [])
                            | None \<Rightarrow>
                                (case uptime_statistics out (history s) ip_addresses of
                                   (r', lines) \<Rightarrow>
                                     (r', UptimeHeader (min 10 (check_count s)) # lines)))
                         else (None, [])) of
                     (r2, written2) \<Rightarrow>
                       (let s2 = s1\<lparr>printed := printed s1 @ written2\<rparr>
                        in case r2 of
                             Some e \<Rightarrow> except_KeyboardInterrupt out ip_addresses e s2
                           | None \<Rightarrow>
                               (case py_print out (NextCheck interval (check_count s)) of
                                  Some e \<Rightarrow> except_KeyboardInterrupt out ip_addresses e s2
                                | None \<Rightarrow>
                                    s2\<lparr>control := Sleeping,
                                       printed := printed s2 @
                                         [NextCheck interval (check_count s)]\<rparr>)))))"

text \<open>Lines 297 to 302: the result is appended to the results of the cycle and its
  reachability to the window of the address.\<close>

definition store_result :: "py_str \<Rightarrow> ping_result \<Rightarrow> monitor_state \<Rightarrow> py_exc option \<times> monitor_state" where
  "store_result ip result s =
     (let s1 = s\<lparr>cycle_results := cycle_results s @ [result]\<rparr>
      in case history s1 ip of
           None \<Rightarrow> (Some KeyError, s1)
         | Some h \<Rightarrow>
             (None, s1\<lparr>history := (history s1)(ip \<mapsto> history_append h (fst (snd result)))\<rparr>))"

text \<open>The \<^verbatim>\<open>for\<close> loop of a cycle from iteration \<open>i\<close> on, up to the point where the monitor
  waits for a subprocess, the cycle ends, or an exception is raised. An iteration whose
  \<^verbatim>\<open>ping_ip\<close> made its result without a subprocess is followed by the next one at once.\<close>

function for_loop ::
  "stdout \<Rightarrow> py_str list \<Rightarrow> int \<Rightarrow> (nat \<Rightarrow> py_str) \<Rightarrow> nat \<Rightarrow> monitor_state \<Rightarrow> monitor_state" where
  "for_loop out ip_addresses interval clock i s =
     (if i < length ip_addresses then
        (case py_print out (ProgressIndex (i + 1) (length ip_addresses)) of
           Some e \<Rightarrow> except_KeyboardInterrupt out ip_addresses e s
         | None \<Rightarrow>
             (case ping_begin out (ip_addresses ! i) True of
                (res, written) \<Rightarrow>
                  (let s1 = s\<lparr>printed := printed s @
                             ProgressIndex (i + 1) (length ip_addresses) # written\<rparr>
                   in case res of
                        Inl e \<Rightarrow> except_KeyboardInterrupt out ip_addresses e s1
                      | Inr None \<Rightarrow> s1\<lparr>control := Pinging i\<rparr>
                      | Inr (Some result) \<Rightarrow>
                          (case store_result (ip_addresses ! i) result s1 of
                             (Some e, s2) \<Rightarrow> except_KeyboardInterrupt out ip_addresses e s2
                           | (None, s2) \<Rightarrow>
                               for_loop out ip_addresses interval clock (i + 1) s2))))
      else finish_cycle out ip_addresses interval clock s)"
  by pat_completeness auto
termination
  by (relation "measure (\<lambda>(out, ip_addresses, interval, clock, i, s). length ip_addresses - i)")
    auto

declare for_loop.simps [simp del]

text \<open>The start of an iteration of \<^verbatim>\<open>while True\<close>.\<close>

definition start_cycle ::
  "stdout \<Rightarrow> py_str list \<Rightarrow> int \<Rightarrow> (nat \<Rightarrow> py_str) \<Rightarrow> monitor_state \<Rightarrow> monitor_state" where
  "start_cycle out ip_addresses interval clock s =
     (let s1 = s\<lparr>check_count := check_count s + 1, cycle_results := []\<rparr>
      in case py_print out (CheckingCount (length ip_addresses)) of
           Some e \<Rightarrow> except_KeyboardInterrupt out ip_addresses e s1
         | None \<Rightarrow>
             for_loop out ip_addresses interval clock 0
               (s1\<lparr>printed := printed s1 @ [CheckingCount (length ip_addresses)]\<rparr>))"

text \<open>One event. An event that does not fit the place where the monitor waits cannot occur
  and leaves the state as it is.\<close>

definition step ::
  "stdout \<Rightarrow> py_str list \<Rightarrow> int \<Rightarrow> (nat \<Rightarrow> py_str) \<Rightarrow> monitor_state \<Rightarrow> event \<Rightarrow> monitor_state" where
  "step out ip_addresses interval clock s ev =
     (case control s of
        Pinging i \<Rightarrow>
          (case ev of
             PingDone oc \<Rightarrow>
               (if i < length ip_addresses then
                  (case ping_end out (ip_addresses ! i) True oc of
                     (res, written) \<Rightarrow>
                       (let s1 = s\<lparr>printed := printed s @ written\<rparr>
                        in case res of
                             Inl e \<Rightarrow> except_KeyboardInterrupt out ip_addresses e s1
                           | Inr result \<Rightarrow>
                               (case store_result (ip_addresses ! i) result s1 of
                                  (Some e, s2) \<Rightarrow> except_KeyboardInterrupt out ip_addresses e s2
                                | (None, s2) \<Rightarrow>
                                    for_loop out ip_addresses interval clock (i + 1) s2)))
                else s)
           | SleepDone \<Rightarrow> s
           | SIGINT \<Rightarrow> signal_handler out ip_addresses s)
      | Sleeping \<Rightarrow>
          (case ev of
             PingDone oc \<Rightarrow> s
           | SleepDone \<Rightarrow> start_cycle out ip_addresses interval clock s
           | SIGINT \<Rightarrow> signal_handler out ip_addresses s)
      | Idle \<Rightarrow> s
      | Returned \<Rightarrow> s
      | Terminated e \<Rightarrow> s)"

text \<open>The state when the loop is entered: the banner is printed (outside the \<^verbatim>\<open>try\<close>
  block), the handler installed, the history holds an empty list for every address.\<close>

definition monitor_init :: "py_str list \<Rightarrow> int \<Rightarrow> int \<Rightarrow> int \<Rightarrow> monitor_state" where
  "monitor_init ip_addresses interval timeout ping_count =
     \<lparr>check_count = 0,
      history = map_of (map (\<lambda>ip. (ip, [])) ip_addresses),
      cycle_results = [],
      control = Idle,
      printed = [StartBanner (length ip_addresses) interval timeout ping_count]\<rparr>"

text \<open>The monitor run against a finite sequence of events: the state it is in after
  them.\<close>

definition round_robin_monitor ::
  "stdout \<Rightarrow> py_str list \<Rightarrow> int \<Rightarrow> int \<Rightarrow> int \<Rightarrow> (nat \<Rightarrow> py_str) \<Rightarrow> event list \<Rightarrow> monitor_state" where
  "round_robin_monitor out ip_addresses interval timeout ping_count clock events =
     (case py_print out (StartBanner (length ip_addresses) interval timeout ping_count) of
        Some e \<Rightarrow>
          \<lparr>check_count = 0, history = Map.empty, cycle_results = [],
           control = Terminated e, printed = []\<rparr>
      | None \<Rightarrow>
          foldl (step out ip_addresses interval clock)
            (start_cycle out ip_addresses interval clock
               (monitor_init ip_addresses interval timeout ping_count))
            events)"

section \<open>Which exceptions the parsing functions raise\<close>

lemma parse_octets_Inl: "parse_octets ss = Inl e \<Longrightarrow> e = ValueError"
  by (induction ss arbitrary: e) (auto simp: parse_octet_def Let_def split: if_splits sum.splits)

lemma ip_int_from_string_Inl: "ip_int_from_string s = Inl e \<Longrightarrow> e = AddressValueError"
  by (auto simp: ip_int_from_string_def Let_def split: if_splits sum.splits)

lemma IPv4Address_Inl: "IPv4Address s = Inl e \<Longrightarrow> e = AddressValueError"
  by (auto simp: IPv4Address_def dest: ip_int_from_string_Inl split: if_splits)

lemma IPv4Address_int_Inl: "IPv4Address_int n = Inl e \<Longrightarrow> e = AddressValueError"
  by (auto simp: IPv4Address_int_def split: if_splits)

lemma prefix_from_prefix_string_Inl: "prefix_from_prefix_string s = Inl e \<Longrightarrow> e = NetmaskValueError"
  by (auto simp: prefix_from_prefix_string_def Let_def split: if_splits)

lemma prefix_from_ip_string_Inl: "prefix_from_ip_string s = Inl e \<Longrightarrow> e = NetmaskValueError"
  by (auto simp: prefix_from_ip_string_def split: sum.splits)

lemma make_netmask_Inl: "make_netmask m = Inl e \<Longrightarrow> e = NetmaskValueError \<or> e = AddressValueError"
  by (auto simp: make_netmask_def dest: prefix_from_ip_string_Inl IPv4Address_int_Inl
      split: sum.splits mask_arg.splits if_splits)

lemma split_addr_prefix_Inl: "split_addr_prefix s = Inl e \<Longrightarrow> e = AddressValueError"
  by (auto simp: split_addr_prefix_def split: list.splits)

lemma IPv4Network_Inl: "IPv4Network s strict = Inl e \<Longrightarrow> is_ValueError e"
  by (auto simp: IPv4Network_def dest!: split_addr_prefix_Inl IPv4Address_Inl make_netmask_Inl IPv4Address_int_Inl
      split: sum.splits prod.splits if_splits)

lemma range_loop_Inl: "range_loop c e acc = Inl x \<Longrightarrow> x = AddressValueError"
proof (induction c e acc rule: range_loop.induct)
  case (1 current end_ip ips)
  show ?case
  proof (cases "current \<le> end_ip")
    case True
    show ?thesis
    proof (cases "IPv4Address_int (current + 1)")
      case (Inl a)
      with True "1.prems" show ?thesis
        by (simp add: range_loop.simps [of current end_ip ips] IPv4Address_int_Inl)
    next
      case (Inr b)
      with True "1.prems" have "range_loop b end_ip (ips @ [string_from_ip_int current]) = Inl x"
        by (simp add: range_loop.simps [of current end_ip ips])
      with "1.IH" True Inr show ?thesis by blast
    qed
  next
    case False
    with "1.prems" show ?thesis by (simp add: range_loop.simps [of current end_ip ips])
  qed
qed

lemma expand_ip_range_try_Inl: "expand_ip_range_try s = Inl e \<Longrightarrow> is_ValueError e"
  by (auto simp: expand_ip_range_try_def dest!: IPv4Network_Inl IPv4Address_Inl range_loop_Inl
      split: sum.splits list.splits if_splits)

lemma is_ValueError_is_Exception: "is_ValueError e \<Longrightarrow> is_Exception e"
  by (cases e) auto

lemma py_print_exc: "py_print out item = Some e \<Longrightarrow> e = UnicodeEncodeError \<or> e = OSError"
  by (auto simp: py_print_def split: if_splits)

lemma py_print_None_iff:
  "py_print out item = None \<longleftrightarrow>
     writable out \<and> (\<forall>c \<in> set (item_chars item). 128 \<le> c \<longrightarrow> encodable out c)"
  by (auto simp: py_print_def)

section \<open>Which exceptions leave \<^verbatim>\<open>expand_ip_range\<close>\<close>

text \<open>
  Claim C9 says that for every input string \<^verbatim>\<open>expand_ip_range\<close> returns a list and never
  lets an exception reach its caller. That fails where the handler's own \<^verbatim>\<open>print\<close> raises:
  the argument \<^verbatim>\<open>'\udcff/24'\<close> (a lone surrogate, as a command-line byte 0xFF arrives) is not a
  valid network, the handler prints the error line with the argument in it, and a
  standard output that encodes UTF-8 strictly refuses the surrogate.
\<close>

theorem expand_ip_range_propagates_counterexample:
  "expand_ip_range utf8_strict (56575 # ustr ''/24'') = (Inl UnicodeEncodeError, [])"
proof -
  have raised: "expand_ip_range_try (56575 # ustr ''/24'') = Inl AddressValueError"
    by code_simp
  have refused: "py_print utf8_strict (ErrorParsingRange (56575 # ustr ''/24'') AddressValueError) =
      Some UnicodeEncodeError"
    by (simp add: py_print_def utf8_strict_def)
  show ?thesis by (simp add: expand_ip_range_def raised refused)
qed

text \<open>
  Claim C9 as amended. For every input string \<^verbatim>\<open>expand_ip_range\<close> terminates, and no
  exception raised while parsing reaches the caller: every failure of the \<^verbatim>\<open>try\<close> block is a
  \<^verbatim>\<open>ValueError\<close>, which the handler catches. The handler prints the error line; if standard
  output takes the line, the function returns the empty list, and if that \<^verbatim>\<open>print\<close> raises
  (\<^verbatim>\<open>UnicodeEncodeError\<close> or \<^verbatim>\<open>OSError\<close>), this exception reaches the caller. So the function
  returns a list whenever standard output is writable and can encode the characters of the
  input.
\<close>

theorem expand_ip_range_total:
  "(\<forall>ips. expand_ip_range_try ip_range = Inr ips \<longrightarrow>
       expand_ip_range out ip_range = (Inr ips, [])) \<and>
   (\<forall>e. expand_ip_range_try ip_range = Inl e \<longrightarrow>
       is_ValueError e \<and>
       (py_print out (ErrorParsingRange ip_range e) = None \<longrightarrow>
          expand_ip_range out ip_range = (Inr [], [ErrorParsingRange ip_range e])) \<and>
       (\<forall>e'. py_print out (ErrorParsingRange ip_range e) = Some e' \<longrightarrow>
          expand_ip_range out ip_range = (Inl e', []) \<and>
          (e' = UnicodeEncodeError \<or> e' = OSError))) \<and>
   (writable out \<and> (\<forall>c \<in> set ip_range. 128 \<le> c \<longrightarrow> encodable out c) \<longrightarrow>
      (\<exists>ips written. expand_ip_range out ip_range = (Inr ips, written)))"
proof (cases "expand_ip_range_try ip_range")
  case (Inl e)
  then have v: "is_ValueError e" by (rule expand_ip_range_try_Inl)
  then have ex: "is_Exception e" by (rule is_ValueError_is_Exception)
  have ok: "py_print out (ErrorParsingRange ip_range e) = None"
    if "writable out \<and> (\<forall>c \<in> set ip_range. 128 \<le> c \<longrightarrow> encodable out c)"
    using that by (simp add: py_print_None_iff)
  show ?thesis
    using Inl v ex ok
    by (auto simp: expand_ip_range_def dest: py_print_exc split: option.splits)
next
  case (Inr ips)
  then show ?thesis by (simp add: expand_ip_range_def)
qed

theorem expand_ip_range_total_witness:
  "expand_ip_range utf8_strict (ustr ''10.0.0.300'') =
     (Inr [], [ErrorParsingRange (ustr ''10.0.0.300'') AddressValueError]) \<and>
   expand_ip_range utf8_strict (ustr ''10.0.0.3'') = (Inr [ustr ''10.0.0.3''], [])"
proof -
  have raised: "expand_ip_range_try (ustr ''10.0.0.300'') = Inl AddressValueError"
    by code_simp
  have written: "py_print utf8_strict (ErrorParsingRange (ustr ''10.0.0.300'') AddressValueError) = None"
    by (simp add: py_print_def utf8_strict_def ustr_def)
  have returned: "expand_ip_range_try (ustr ''10.0.0.3'') = Inr [ustr ''10.0.0.3'']"
    by code_simp
  have "expand_ip_range utf8_strict (ustr ''10.0.0.300'') =
      (Inr [], [ErrorParsingRange (ustr ''10.0.0.300'') AddressValueError])"
    using expand_ip_range_total [of "ustr ''10.0.0.300''" utf8_strict] raised written by blast
  moreover have "expand_ip_range utf8_strict (ustr ''10.0.0.3'') = (Inr [ustr ''10.0.0.3''], [])"
    using expand_ip_range_total [of "ustr ''10.0.0.3''" utf8_strict] returned by blast
  ultimately show ?thesis by blast
qed

section \<open>Range specifications\<close>

lemma int_of_digits_nonneg_aux:
  "list_all is_ascii_digit s \<Longrightarrow> 0 \<le> acc \<Longrightarrow>
   0 \<le> foldl (\<lambda>acc c. 10 * acc + digit_val c) acc s"
  by (induction s arbitrary: acc) (auto simp: is_ascii_digit_def digit_val_def)

lemma parse_octet_range: "parse_octet s = Inr b \<Longrightarrow> 0 \<le> b \<and> b \<le> 255"
  by (auto simp: parse_octet_def Let_def isascii_isdigit_def int_of_digits_def
      intro: int_of_digits_nonneg_aux split: if_splits)

lemma parse_octets_range:
  "parse_octets ss = Inr bs \<Longrightarrow> length bs = length ss \<and> (\<forall>b \<in> set bs. 0 \<le> b \<and> b \<le> 255)"
proof (induction ss arbitrary: bs)
  case Nil
  then show ?case by simp
next
  case (Cons s ss)
  then show ?case
    by (auto split: sum.splits dest: parse_octet_range)
qed

lemma from_bytes_big_4_range:
  assumes "length bs = 4" and "\<forall>b \<in> set bs. 0 \<le> b \<and> b \<le> (255::int)"
  shows "0 \<le> from_bytes_big bs \<and> from_bytes_big bs \<le> ALL_ONES"
proof -
  from assms(1) obtain b0 b1 b2 b3 where bs: "bs = [b0, b1, b2, b3]"
    by (auto simp: length_Suc_conv numeral_eq_Suc)
  with assms(2) show ?thesis
    by (simp add: from_bytes_big_def ALL_ONES_def)
qed

lemma ip_int_from_string_range:
  "ip_int_from_string s = Inr a \<Longrightarrow> 0 \<le> a \<and> a \<le> ALL_ONES"
proof -
  assume r: "ip_int_from_string s = Inr a"
  then obtain bs where p: "parse_octets (str_split 46 s) = Inr bs"
    and len: "length (str_split 46 s) = 4" and a: "a = from_bytes_big bs"
    by (auto simp: ip_int_from_string_def Let_def split: if_splits sum.splits)
  from parse_octets_range [OF p] len have "length bs = 4" "\<forall>b \<in> set bs. 0 \<le> b \<and> b \<le> 255"
    by auto
  then show ?thesis unfolding a by (rule from_bytes_big_4_range)
qed

lemma IPv4Address_range: "IPv4Address s = Inr a \<Longrightarrow> 0 \<le> a \<and> a \<le> ALL_ONES"
  by (auto simp: IPv4Address_def dest: ip_int_from_string_range split: if_splits)

text \<open>The loop of the range branch below the last address, and at the last address.\<close>

lemma range_loop_below_max:
  "0 \<le> a \<Longrightarrow> b < ALL_ONES \<Longrightarrow>
   range_loop a b acc = Inr (acc @ map string_from_ip_int [a..b])"
proof (induction a b acc rule: range_loop.induct)
  case (1 current end_ip ips)
  show ?case
  proof (cases "current \<le> end_ip")
    case True
    with "1.prems" have nxt: "IPv4Address_int (current + 1) = Inr (current + 1)"
      by (simp add: IPv4Address_int_def)
    from "1.IH" [OF True nxt] "1.prems"
    have "range_loop (current + 1) end_ip (ips @ [string_from_ip_int current]) =
        Inr ((ips @ [string_from_ip_int current]) @ map string_from_ip_int [current + 1..end_ip])"
      by simp
    with True nxt show ?thesis
      by (simp add: range_loop.simps [of current end_ip ips] upto_rec1 [of current end_ip])
  next
    case False
    then show ?thesis by (simp add: range_loop.simps [of current end_ip ips])
  qed
qed

lemma range_loop_at_max:
  "0 \<le> a \<Longrightarrow> a \<le> ALL_ONES \<Longrightarrow> range_loop a ALL_ONES acc = Inl AddressValueError"
proof (induction a "ALL_ONES" acc rule: range_loop.induct)
  case (1 current ips)
  show ?case
  proof (cases "current = ALL_ONES")
    case True
    have "IPv4Address_int (ALL_ONES + 1) = Inl AddressValueError"
      by (simp add: IPv4Address_int_def)
    with True show ?thesis
      by (simp add: range_loop.simps [of ALL_ONES ALL_ONES ips])
  next
    case False
    with "1.prems" have lt: "current < ALL_ONES" by simp
    with "1.prems" have nxt: "IPv4Address_int (current + 1) = Inr (current + 1)"
      by (simp add: IPv4Address_int_def)
    from lt have le: "current \<le> ALL_ONES" by simp
    from "1.hyps" [OF le nxt] "1.prems" lt
    have "range_loop (current + 1) ALL_ONES (ips @ [string_from_ip_int current]) =
        Inl AddressValueError"
      by simp
    with le nxt show ?thesis
      by (simp add: range_loop.simps [of current ALL_ONES ips])
  qed
qed

lemma str_split1_first:
  "sep \<notin> set start \<Longrightarrow> str_split1 sep (start @ sep # rest) = [start, rest]"
  by (induction start) (auto simp: str_split1_def)

text \<open>What the \<^verbatim>\<open>try\<close> block does with a range specification whose two ends are valid
  addresses in ascending order.\<close>

lemma expand_ip_range_try_range:
  assumes "47 \<notin> set start_str" "47 \<notin> set end_str" "45 \<notin> set start_str"
    and "IPv4Address (str_strip start_str) = Inr a"
    and "IPv4Address (str_strip end_str) = Inr b"
    and "a \<le> b"
  shows "expand_ip_range_try (start_str @ 45 # end_str) =
     (if b = ALL_ONES then Inl AddressValueError else Inr (map string_from_ip_int [a..b]))"
proof -
  from assms(4) have a: "0 \<le> a" "a \<le> ALL_ONES" by (auto dest: IPv4Address_range)
  from assms(5) have b: "b \<le> ALL_ONES" by (auto dest: IPv4Address_range)
  have loop: "range_loop a b [] =
      (if b = ALL_ONES then Inl AddressValueError else Inr (map string_from_ip_int [a..b]))"
  proof (cases "b = ALL_ONES")
    case True
    with a show ?thesis by (simp add: range_loop_at_max)
  next
    case False
    with b have "b < ALL_ONES" by simp
    with a False show ?thesis by (simp add: range_loop_below_max)
  qed
  from assms show ?thesis
    by (simp add: expand_ip_range_try_def str_split1_first loop)
qed




section \<open>Properties of \<^verbatim>\<open>print_results\<close>\<close>











text \<open>The lines that show a rate, and the rate they show.\<close>

fun shown_rate :: "out_item \<Rightarrow> rat option" where
  "shown_rate (RoundRobinStatus alive_count total_count rate) = Some rate"
| "shown_rate (SuccessRate rate) = Some rate"
| "shown_rate item = None"

lemma shown_rate_rows:
  "item \<in> set (map (\<lambda>(ip, is_alive, message). ResultLine ip is_alive message) rs) \<Longrightarrow>
   shown_rate item = None"
  by auto






section \<open>Properties of \<^verbatim>\<open>check_ips_parallel\<close>\<close>









section \<open>Cancelling the monitor\<close>


text \<open>What the \<^verbatim>\<open>except KeyboardInterrupt\<close> clause prints for that history when it is
  reached: the line the claim asks for.\<close>

lemma except_KeyboardInterrupt_prints_statistics:
  "printed (except_KeyboardInterrupt any_stdout [ustr ''8.8.8.8''] KeyboardInterrupt
      \<lparr>check_count = 1, history = [ustr ''8.8.8.8'' \<mapsto> [True]], cycle_results = [],
       control = Sleeping, printed = []\<rparr>) =
     [StoppedByUser, FinalStatisticsHeader, FinalStatisticsLine (ustr ''8.8.8.8'') 1 1 100]"
  by (simp add: except_KeyboardInterrupt_def py_print_def any_stdout_def py_truediv_def
      sum_bools_def Let_def)

section \<open>The history windows of the monitor\<close>

text \<open>Only \<open>store_result\<close> writes the history; the handlers and the end of a cycle leave it
  as it is.\<close>

lemma history_except [simp]:
  "history (except_KeyboardInterrupt out ips e s) = history s"
  by (cases e) (auto simp: except_KeyboardInterrupt_def split: prod.splits option.splits)

lemma history_signal_handler [simp]: "history (signal_handler out ips s) = history s"
  by (auto simp: signal_handler_def split: option.splits)

lemma history_finish_cycle [simp]: "history (finish_cycle out ips interval clock s) = history s"
  by (auto simp: finish_cycle_def Let_def split: prod.splits option.splits)

definition windows_bounded :: "(py_str \<rightharpoonup> bool list) \<Rightarrow> bool" where
  "windows_bounded hist \<longleftrightarrow> (\<forall>ip h. hist ip = Some h \<longrightarrow> length h \<le> 10)"

lemma length_history_append: "length h \<le> 10 \<Longrightarrow> length (history_append h alive) \<le> 10"
  by (auto simp: history_append_def Let_def)

lemma store_result_bounded:
  assumes "windows_bounded (history s)" and "store_result ip result s = (r, s')"
  shows "windows_bounded (history s')"
proof (cases "history s ip")
  case None
  with assms show ?thesis by (auto simp: store_result_def Let_def)
next
  case (Some h)
  with assms(1) have "length h \<le> 10" by (simp add: windows_bounded_def)
  then have "length (history_append h (fst (snd result))) \<le> 10"
    by (rule length_history_append)
  with assms Some show ?thesis
    by (auto simp: store_result_def Let_def windows_bounded_def split: if_splits)
qed

lemma for_loop_bounded:
  "windows_bounded (history s) \<Longrightarrow>
   windows_bounded (history (for_loop out ips interval clock i s))"
proof (induction out ips interval clock i s rule: for_loop.induct)
  case (1 out ips interval clock i s)
  show ?case
  proof (cases "i < length ips")
    case False
    with "1.prems" show ?thesis
      by (simp add: for_loop.simps [of out ips interval clock i s])
  next
    case True
    show ?thesis
    proof (cases "py_print out (ProgressIndex (i + 1) (length ips))")
      case (Some e)
      with True "1.prems" show ?thesis
        by (simp add: for_loop.simps [of out ips interval clock i s])
    next
      case None
      obtain res written where pb: "ping_begin out (ips ! i) True = (res, written)"
        by (cases "ping_begin out (ips ! i) True")
      define s1 where
        "s1 = s\<lparr>printed := printed s @ ProgressIndex (i + 1) (length ips) # written\<rparr>"
      have b1: "windows_bounded (history s1)" using "1.prems" by (simp add: s1_def)
      show ?thesis
      proof (cases res)
        case (Inl e)
        with True None pb b1 show ?thesis
          by (simp add: for_loop.simps [of out ips interval clock i s] s1_def)
      next
        case (Inr opt)
        show ?thesis
        proof (cases opt)
          case None': None
          with True None pb Inr b1 show ?thesis
            by (simp add: for_loop.simps [of out ips interval clock i s] s1_def)
        next
          case (Some result)
          obtain r s2 where st: "store_result (ips ! i) result s1 = (r, s2)"
            by (cases "store_result (ips ! i) result s1")
          from store_result_bounded [OF b1 st] have b2: "windows_bounded (history s2)" .
          show ?thesis
          proof (cases r)
            case None'': None
            from "1.IH" [OF True None pb [symmetric] s1_def Inr Some st [symmetric] None''] b2
            have "windows_bounded (history (for_loop out ips interval clock (i + 1) s2))"
              by simp
            with True None pb Inr Some st None'' show ?thesis
              by (simp add: for_loop.simps [of out ips interval clock i s] s1_def)
          next
            case Some': (Some e)
            with True None pb Inr Some st b2 show ?thesis
              by (simp add: for_loop.simps [of out ips interval clock i s] s1_def)
          qed
        qed
      qed
    qed
  qed
qed


lemma start_cycle_bounded:
  "windows_bounded (history s) \<Longrightarrow>
   windows_bounded (history (start_cycle out ips interval clock s))"
  by (auto simp: start_cycle_def Let_def for_loop_bounded split: option.splits)

lemma step_bounded:
  assumes "windows_bounded (history s)"
  shows "windows_bounded (history (step out ips interval clock s ev))"
proof (cases "control s")
  case (Pinging i)
  show ?thesis
  proof (cases ev)
    case (PingDone oc)
    show ?thesis
    proof (cases "i < length ips")
      case True
      obtain res written where pe: "ping_end out (ips ! i) True oc = (res, written)"
        by (cases "ping_end out (ips ! i) True oc")
      have b1: "windows_bounded (history (s\<lparr>printed := printed s @ written\<rparr>))"
        using assms by simp
      show ?thesis
      proof (cases res)
        case (Inl e)
        with Pinging PingDone True pe assms show ?thesis by (simp add: step_def)
      next
        case (Inr result)
        obtain r s2 where st:
          "store_result (ips ! i) result (s\<lparr>printed := printed s @ written\<rparr>) = (r, s2)"
          by (cases "store_result (ips ! i) result (s\<lparr>printed := printed s @ written\<rparr>)")
        from store_result_bounded [OF b1 st] have "windows_bounded (history s2)" .
        with Pinging PingDone True pe Inr st show ?thesis
          by (cases r) (simp_all add: step_def for_loop_bounded)
      qed
    next
      case False
      with Pinging PingDone assms show ?thesis by (simp add: step_def)
    qed
  next
    case SleepDone
    with Pinging assms show ?thesis by (simp add: step_def)
  next
    case SIGINT
    with Pinging assms show ?thesis by (simp add: step_def)
  qed
next
  case Sleeping
  with assms show ?thesis
    by (cases ev) (simp_all add: step_def start_cycle_bounded)
qed (use assms in \<open>simp_all add: step_def\<close>)

lemma foldl_step_bounded:
  "windows_bounded (history s) \<Longrightarrow>
   windows_bounded (history (foldl (step out ips interval clock) s events))"
  by (induction events arbitrary: s) (simp_all add: step_bounded)

lemma monitor_init_bounded:
  "windows_bounded (history (monitor_init ips interval timeout ping_count))"
  by (auto simp: monitor_init_def windows_bounded_def dest!: map_of_SomeD)

lemma round_robin_monitor_bounded:
  "windows_bounded (history (round_robin_monitor out ips interval timeout ping_count clock events))"
proof (cases "py_print out (StartBanner (length ips) interval timeout ping_count)")
  case None
  then show ?thesis
    by (simp add: round_robin_monitor_def foldl_step_bounded start_cycle_bounded
        monitor_init_bounded)
next
  case (Some e)
  then show ?thesis by (simp add: round_robin_monitor_def windows_bounded_def)
qed

end
